theory Spec2Isabelle
  imports Main
begin

section \<open>print\_help.cpp: asking a fish child process to print a help page\<close>

text \<open>
  The unit under study is the single function
  \<^verbatim>\<open>
  #define CMD_LEN 1024
  #define HELP_ERR "Could not show help message\n"

  void print_help(const char *c) {
      char cmd[CMD_LEN];
      int printed = snprintf(cmd, CMD_LEN, "fish -c '__fish_print_help %s'", c);

      if (printed < CMD_LEN && system(cmd) == -1) {
          write_loop(2, HELP_ERR, std::strlen(HELP_ERR));
      }
  }
  \<close>
  A C string is represented by the list of its bytes before the terminating NUL
  (\<^typ>\<open>string\<close> is \<^typ>\<open>char list\<close>, and a \<^typ>\<open>char\<close> is a byte). The function talks
  to the outside world through \<open>system\<close> and through \<open>write_loop\<close>; what the outside
  world answers is a parameter of the model, and every call is recorded in a trace.
\<close>

subsection \<open>Constants\<close>

definition CMD_LEN :: int where
  "CMD_LEN = 1024"

definition HELP_ERR :: string where
  "HELP_ERR = ''Could not show help message'' @ [CHR 0x0A]"

text \<open>The largest value of the C type \<open>int\<close> (32 bits on every platform fish builds on).\<close>

definition INT_MAX :: int where
  "INT_MAX = 2147483647"

subsection \<open>The C library calls\<close>

text \<open>\<open>strlen\<close>: the number of bytes before the terminating NUL.\<close>

definition strlen :: "string \<Rightarrow> nat" where
  "strlen s = length s"

text \<open>
  The expansion of the format \<^verbatim>\<open>"fish -c '__fish_print_help %s'"\<close> with \<open>c\<close> for the
  \<^verbatim>\<open>%s\<close> conversion: the output \<open>snprintf\<close> would produce into a buffer of any size.
\<close>

definition format_cmd :: "string \<Rightarrow> string" where
  "format_cmd c = ''fish -c '__fish_print_help '' @ c @ [CHR 0x27]"

text \<open>
  \<open>snprintf buf n fmt ...\<close> for \<open>0 < n\<close>, given the full output \<open>out\<close> of the format:
  at most \<open>n - 1\<close> bytes of \<open>out\<close> are stored, followed by a NUL, so the buffer then holds
  the C string \<open>take (n - 1) out\<close>. The value returned is the length of the full output
  (ISO C: the number of characters that would have been written had \<open>n\<close> been large
  enough); the return type is \<open>int\<close>, and when that length is not representable the call
  fails with \<open>EOVERFLOW\<close> and returns a negative value (POSIX; glibc, musl and the BSD
  libc return \<open>-1\<close> and leave the truncated output in the buffer).
  The result is the pair of the C string left in the buffer and the returned \<open>int\<close>.
\<close>

definition snprintf :: "nat \<Rightarrow> string \<Rightarrow> string \<times> int" where
  "snprintf n out =
     (take (n - 1) out,
      if INT_MAX < int (length out) then - 1 else int (length out))"

subsection \<open>The outside world\<close>

text \<open>
  One \<open>write\<close> call on a file descriptor either accepts some of the bytes offered
  (possibly fewer than offered: a partial write; possibly none) or fails for good.
\<close>

datatype wres = Accepted nat | Hard_error

text \<open>
  The externally visible effects, in the order in which they happen: a command line handed
  to \<open>system\<close>, bytes accepted by a \<open>write\<close> on a descriptor, a \<open>write\<close> that failed.
\<close>

datatype event = Exec string | Wrote int string | Write_error int

text \<open>
  The behaviour of the collaborators. Each answer may depend on everything that has
  happened so far (the trace) and on the arguments of the call.
  \<open>system_result\<close> is the value \<open>system\<close> returns: \<open>-1\<close> when no child process could
  be created, otherwise the termination status of the command.
\<close>

record env =
  system_result :: "event list \<Rightarrow> string \<Rightarrow> int"
  write_result :: "event list \<Rightarrow> int \<Rightarrow> string \<Rightarrow> wres"

definition system :: "env \<Rightarrow> string \<Rightarrow> event list \<Rightarrow> int \<times> event list" where
  "system E cmd tr = (system_result E tr cmd, tr @ [Exec cmd])"

text \<open>
  Modelled from the spec: \<open>write_loop\<close> (declared in common.h, defined in common.cpp, which
  is not part of the sources at hand). The spec describes it as the reliable byte-writer
  \<open>write_all(fd, bytes) -> bool-or-status\<close> that "loops past partial writes until all
  requested bytes are written or a hard error occurs".

  The loop has no bound of its own (a sink that never accepts a byte keeps it running), so
  the model carries fuel: the number of \<open>write\<close> calls it is followed for. The status is
  \<open>Some True\<close> when all bytes were written, \<open>Some False\<close> after a hard error, and \<open>None\<close>
  when the loop has not returned within the fuel; the trace is returned in each case.
\<close>

fun write_all :: "nat \<Rightarrow> env \<Rightarrow> int \<Rightarrow> string \<Rightarrow> event list \<Rightarrow> bool option \<times> event list" where
  "write_all fuel E fd [] tr = (Some True, tr)"
| "write_all 0 E fd (b # bs) tr = (None, tr)"
| "write_all (Suc fuel) E fd (b # bs) tr =
     (case write_result E tr fd (b # bs) of
        Hard_error \<Rightarrow> (Some False, tr @ [Write_error fd])
      | Accepted k \<Rightarrow>
          write_all fuel E fd (drop k (b # bs)) (tr @ [Wrote fd (take k (b # bs))]))"

text \<open>The call as the source writes it: descriptor, buffer, number of bytes of the buffer.\<close>

definition write_loop ::
    "nat \<Rightarrow> env \<Rightarrow> int \<Rightarrow> string \<Rightarrow> nat \<Rightarrow> event list \<Rightarrow> bool option \<times> event list" where
  "write_loop fuel E fd buff count tr = write_all fuel E fd (take count buff) tr"

subsection \<open>print\_help\<close>

text \<open>
  The result is the pair of the returned value and the trace: \<open>Some ()\<close> when the function
  has returned (it is a \<open>void\<close> function), \<open>None\<close> when it is still inside \<open>write_loop\<close>
  after \<open>fuel\<close> calls of \<open>write\<close>. The \<^verbatim>\<open>&&\<close> of the source evaluates \<open>system\<close> only when
  the comparison holds; the value \<open>write_loop\<close> returns is dropped.
\<close>

definition print_help :: "nat \<Rightarrow> env \<Rightarrow> string \<Rightarrow> event list \<Rightarrow> unit option \<times> event list" where
  "print_help fuel E c tr =
     (let (cmd, printed) = snprintf (nat CMD_LEN) (format_cmd c) in
      if printed < CMD_LEN then
        (let (status, tr1) = system E cmd tr in
         if status = - 1 then
           (let (done, tr2) = write_loop fuel E 2 HELP_ERR (strlen HELP_ERR) tr1 in
            (map_option (\<lambda>_. ()) done, tr2))
         else (Some (), tr1))
      else (Some (), tr))"

subsection \<open>Observations on a trace\<close>

text \<open>The command lines handed to \<open>system\<close>, oldest first.\<close>

fun executed :: "event list \<Rightarrow> string list" where
  "executed [] = []"
| "executed (Exec cmd # es) = cmd # executed es"
| "executed (Wrote fd bs # es) = executed es"
| "executed (Write_error fd # es) = executed es"

text \<open>The bytes that reached descriptor \<open>fd\<close>, in order.\<close>

fun written_to :: "int \<Rightarrow> event list \<Rightarrow> string" where
  "written_to fd [] = []"
| "written_to fd (Exec cmd # es) = written_to fd es"
| "written_to fd (Wrote fd' bs # es) = (if fd' = fd then bs @ written_to fd es else written_to fd es)"
| "written_to fd (Write_error fd' # es) = written_to fd es"

text \<open>The \<open>write\<close> calls made, successful or not, as (descriptor, bytes accepted).\<close>

fun write_calls :: "event list \<Rightarrow> (int \<times> string option) list" where
  "write_calls [] = []"
| "write_calls (Exec cmd # es) = write_calls es"
| "write_calls (Wrote fd bs # es) = (fd, Some bs) # write_calls es"
| "write_calls (Write_error fd # es) = (fd, None) # write_calls es"

section \<open>Basic facts\<close>

lemma length_format_cmd: "length (format_cmd c) = 28 + length c"
  by (simp add: format_cmd_def)

lemma strlen_HELP_ERR: "strlen HELP_ERR = 28"
  by (simp add: strlen_def HELP_ERR_def)

lemma executed_append: "executed (xs @ ys) = executed xs @ executed ys"
  by (induction xs rule: executed.induct) simp_all

lemma written_to_append: "written_to fd (xs @ ys) = written_to fd xs @ written_to fd ys"
  by (induction fd xs rule: written_to.induct) simp_all

lemma write_calls_append: "write_calls (xs @ ys) = write_calls xs @ write_calls ys"
  by (induction xs rule: write_calls.induct) simp_all

lemma written_to_chunks: "written_to fd (map (Wrote fd) chunks) = concat chunks"
  by (induction chunks) simp_all

subsection \<open>What snprintf leaves behind\<close>

lemma snprintf_fits:
  "int (length out) < CMD_LEN \<Longrightarrow> snprintf (nat CMD_LEN) out = (out, int (length out))"
  by (simp add: snprintf_def CMD_LEN_def INT_MAX_def)

lemma snprintf_too_long:
  "CMD_LEN \<le> int (length out) \<Longrightarrow> int (length out) \<le> INT_MAX \<Longrightarrow>
   snd (snprintf (nat CMD_LEN) out) = int (length out)"
  by (simp add: snprintf_def)

lemma snprintf_overflow:
  "INT_MAX < int (length out) \<Longrightarrow> snprintf (nat CMD_LEN) out = (take 1023 out, - 1)"
  by (simp add: snprintf_def CMD_LEN_def)

subsection \<open>The write loop\<close>

text \<open>The loop only ever appends \<open>write\<close> events to the trace.\<close>

lemma write_all_extends:
  "\<exists>ws. snd (write_all fuel E fd bs tr) = tr @ ws \<and> executed ws = []"
proof (induction fuel E fd bs tr rule: write_all.induct)
  case (3 fuel E fd b bs tr)
  show ?case
  proof (cases "write_result E tr fd (b # bs)")
    case (Accepted k)
    with 3 obtain ws where
      "snd (write_all fuel E fd (drop k (b # bs)) (tr @ [Wrote fd (take k (b # bs))]))
        = (tr @ [Wrote fd (take k (b # bs))]) @ ws" and "executed ws = []"
      by blast
    then show ?thesis using Accepted
      by (intro exI [of _ "Wrote fd (take k (b # bs)) # ws"]) simp
  next
    case Hard_error
    then show ?thesis by (intro exI [of _ "[Write_error fd]"]) simp
  qed
qed simp_all

lemma executed_write_all: "executed (snd (write_all fuel E fd bs tr)) = executed tr"
  using write_all_extends [of fuel E fd bs tr] by (auto simp: executed_append)

text \<open>With bytes to write and fuel for one call, a \<open>write\<close> call is made.\<close>

lemma write_all_first_call:
  assumes "bs \<noteq> []" and "0 < fuel"
  shows "length (write_calls tr) < length (write_calls (snd (write_all fuel E fd bs tr)))"
proof -
  from assms obtain n b bs' where fuel: "fuel = Suc n" and bs: "bs = b # bs'"
    by (cases fuel; cases bs) auto
  show ?thesis
  proof (cases "write_result E tr fd (b # bs')")
    case (Accepted k)
    obtain ws where
      "snd (write_all n E fd (drop k (b # bs')) (tr @ [Wrote fd (take k (b # bs'))]))
        = (tr @ [Wrote fd (take k (b # bs'))]) @ ws"
      using write_all_extends by blast
    then show ?thesis
      using Accepted by (simp add: fuel bs write_calls_append)
  next
    case Hard_error
    then show ?thesis by (simp add: fuel bs write_calls_append)
  qed
qed

text \<open>
  A sink that accepts at least one byte at every call gets every byte, in order, within
  as many calls as there are bytes.
\<close>

lemma write_all_progress:
  assumes sink: "\<forall>h b. b \<noteq> [] \<longrightarrow> (\<exists>k>0. write_result E h fd b = Accepted k)"
  shows "length bs \<le> fuel \<Longrightarrow>
         \<exists>chunks. write_all fuel E fd bs tr = (Some True, tr @ map (Wrote fd) chunks)
                 \<and> concat chunks = bs"
proof (induction fuel arbitrary: bs tr)
  case 0
  then show ?case by (intro exI [of _ "[]"]) simp
next
  case (Suc fuel)
  show ?case
  proof (cases bs)
    case Nil
    then show ?thesis by (intro exI [of _ "[]"]) simp
  next
    case (Cons b bs')
    with sink obtain k where k: "0 < k" "write_result E tr fd (b # bs') = Accepted k"
      by blast
    from Suc.prems Cons k have "length (drop k (b # bs')) \<le> fuel"
      by simp
    from Suc.IH [OF this, of "tr @ [Wrote fd (take k (b # bs'))]"] obtain chunks where
      run: "write_all fuel E fd (drop k (b # bs')) (tr @ [Wrote fd (take k (b # bs'))])
            = (Some True, (tr @ [Wrote fd (take k (b # bs'))]) @ map (Wrote fd) chunks)"
      and cat: "concat chunks = drop k (b # bs')"
      by blast
    show ?thesis
    proof (intro exI [of _ "take k (b # bs') # chunks"] conjI)
      show "write_all (Suc fuel) E fd bs tr
            = (Some True, tr @ map (Wrote fd) (take k (b # bs') # chunks))"
        using k run by (simp add: Cons)
      show "concat (take k (b # bs') # chunks) = bs"
        using cat by (simp only: concat.simps Cons append_take_drop_id)
    qed
  qed
qed

text \<open>
  A sink that never answers "zero bytes accepted" lets the loop return, with success or
  with a hard error, within as many calls as there are bytes.
\<close>

lemma write_all_returns:
  assumes sink: "\<forall>h b. write_result E h fd b \<noteq> Accepted 0"
  shows "length bs \<le> fuel \<Longrightarrow> fst (write_all fuel E fd bs tr) \<noteq> None"
proof (induction fuel arbitrary: bs tr)
  case 0
  then show ?case by simp
next
  case (Suc fuel)
  show ?case
  proof (cases bs)
    case Nil
    then show ?thesis by simp
  next
    case (Cons b bs')
    show ?thesis
    proof (cases "write_result E tr fd (b # bs')")
      case (Accepted k)
      with sink have "0 < k"
        by (cases k) auto
      with Suc.prems Cons have "length (drop k (b # bs')) \<le> fuel"
        by simp
      from Suc.IH [OF this] show ?thesis
        using Accepted by (simp add: Cons)
    next
      case Hard_error
      then show ?thesis by (simp add: Cons)
    qed
  qed
qed

text \<open>The loop depends on the sink only through its answers on the descriptor written to.\<close>

lemma write_all_same_answers:
  assumes "\<forall>h b. write_result E1 h fd b = write_result E2 h fd b"
  shows "write_all fuel E1 fd bs tr = write_all fuel E2 fd bs tr"
proof (induction fuel arbitrary: bs tr)
  case 0
  then show ?case by (cases bs) simp_all
next
  case (Suc fuel)
  then show ?case using assms by (cases bs) (simp_all split: wres.splits)
qed

subsection \<open>The three paths of print\_help\<close>

lemma print_help_fits:
  assumes "int (length (format_cmd c)) < CMD_LEN"
  shows "print_help fuel E c tr =
     (if system_result E tr (format_cmd c) = - 1
      then (map_option (\<lambda>_. ()) (fst (write_all fuel E 2 HELP_ERR (tr @ [Exec (format_cmd c)]))),
            snd (write_all fuel E 2 HELP_ERR (tr @ [Exec (format_cmd c)])))
      else (Some (), tr @ [Exec (format_cmd c)]))"
  using assms
  by (simp add: print_help_def snprintf_fits system_def write_loop_def strlen_def split_beta)

text \<open>
  An output of \<open>CMD_LEN\<close> bytes or more whose length \<open>snprintf\<close> can report is never
  executed, and nothing is written.
\<close>

lemma print_help_overflow_skips:
  assumes "CMD_LEN \<le> int (length (format_cmd c))" and "int (length (format_cmd c)) \<le> INT_MAX"
  shows "print_help fuel E c tr = (Some (), tr)"
  using assms by (simp add: print_help_def snprintf_def split_beta)

lemma executed_print_help:
  "executed (snd (print_help fuel E c tr)) =
     (if snd (snprintf (nat CMD_LEN) (format_cmd c)) < CMD_LEN
      then executed tr @ [fst (snprintf (nat CMD_LEN) (format_cmd c))]
      else executed tr)"
  by (simp add: print_help_def system_def write_loop_def split_beta
      executed_write_all executed_append)

text \<open>
  The executor is reached exactly for the topics of at most 995 bytes and for those so long
  that \<open>snprintf\<close> cannot report the length of its output.
\<close>

lemma print_help_executes_iff:
  "executed (snd (print_help fuel E c tr)) \<noteq> executed tr
   \<longleftrightarrow> length c \<le> 995 \<or> INT_MAX < int (length (format_cmd c))"
  by (auto simp: executed_print_help snprintf_def length_format_cmd CMD_LEN_def INT_MAX_def)

text \<open>Up to \<open>INT_MAX\<close> bytes of output, a command that is executed is the complete one.\<close>

lemma print_help_complete_upto_int_max:
  assumes "int (length (format_cmd c)) \<le> INT_MAX"
  shows "executed (snd (print_help fuel E c tr)) = executed tr
         \<or> executed (snd (print_help fuel E c tr)) = executed tr @ [format_cmd c]"
  using assms
  by (auto simp: executed_print_help snprintf_def CMD_LEN_def)

text \<open>A run with partial writes: the sink takes ten bytes at a time.\<close>

lemma print_help_partial_writes_example:
  "print_help 28 \<lparr>system_result = \<lambda>h cmd. - 1, write_result = \<lambda>h fd b. Accepted 10\<rparr> ''math'' []
   = (Some (), [Exec (''fish -c '__fish_print_help math'' @ [CHR 0x27]),
                Wrote 2 ''Could not '', Wrote 2 ''show help '', Wrote 2 (''message'' @ [CHR 0x0A])])"
  by (simp add: print_help_def snprintf_def format_cmd_def CMD_LEN_def INT_MAX_def system_def
      write_loop_def strlen_def HELP_ERR_def numeral_eq_Suc)

section \<open>The claims\<close>

text \<open>
  Throughout, a formatted command "fits" when it and its terminating NUL find room in the
  buffer, that is when its length is less than \<open>CMD_LEN\<close>: the test the source makes.
\<close>

subsection \<open>C1: the normal path\<close>

text \<open>
  Claim C1. For every topic whose formatted command fits in the buffer, and an executor
  that launches (\<open>system\<close> does not return \<open>-1\<close>), \<open>print_help\<close> returns after exactly one
  new event: the call of the executor on the template
  \<^verbatim>\<open>fish -c '__fish_print_help %s'\<close> with the topic in place of \<^verbatim>\<open>%s\<close>. No \<open>write\<close> is made,
  so nothing reaches standard error.
\<close>

theorem print_help_normal_path:
  assumes "int (length (format_cmd c)) < CMD_LEN"
      and "system_result E tr (format_cmd c) \<noteq> - 1"
  shows "print_help fuel E c tr = (Some (), tr @ [Exec (format_cmd c)])
         \<and> format_cmd c = ''fish -c '__fish_print_help '' @ c @ [CHR 0x27]"
  using assms by (simp add: print_help_fits) (simp add: format_cmd_def)

text \<open>The topic \<open>math\<close> with an executor that reports status 0.\<close>

theorem print_help_normal_path_witness:
  "int (length (format_cmd ''math'')) < CMD_LEN
   \<and> system_result \<lparr>system_result = \<lambda>h cmd. 0, write_result = \<lambda>h fd b. Hard_error\<rparr> []
        (format_cmd ''math'') \<noteq> - 1
   \<and> print_help 0 \<lparr>system_result = \<lambda>h cmd. 0, write_result = \<lambda>h fd b. Hard_error\<rparr> ''math'' []
       = (Some (), [Exec (''fish -c '__fish_print_help math'' @ [CHR 0x27])])"
proof -
  have fits: "int (length (format_cmd ''math'')) < CMD_LEN"
    by (simp add: length_format_cmd CMD_LEN_def)
  have ok: "system_result \<lparr>system_result = \<lambda>h cmd. 0, write_result = \<lambda>h fd b. Hard_error\<rparr> []
        (format_cmd ''math'') \<noteq> - 1"
    by simp
  show ?thesis
    using fits ok print_help_normal_path [OF fits ok, of 0] by simp
qed

subsection \<open>C3: launch failure\<close>

text \<open>
  Claim C3. For every topic whose formatted command fits, if the executor reports launch
  failure (\<open>system\<close> returns \<open>-1\<close>), \<open>print_help\<close> hands to \<open>write_loop\<close>, on descriptor 2,
  the 28 bytes of \<^verbatim>\<open>"Could not show help message\n"\<close>, and what \<open>write_loop\<close> does is all that
  happens after the one executor call. When the sink takes at least one byte at every
  \<open>write\<close>, however few, 28 calls are enough for \<open>print_help\<close> to return, the events
  after the executor call are \<open>write\<close>s on descriptor 2 only, and the bytes they accepted,
  put end to end, are the message: standard error has received \<open>HELP_ERR\<close>, no more and
  no less.
\<close>

theorem print_help_launch_failure_diagnostic:
  assumes "int (length (format_cmd c)) < CMD_LEN"
      and "system_result E tr (format_cmd c) = - 1"
  shows "(let (done, tr2) = write_loop fuel E 2 HELP_ERR 28 (tr @ [Exec (format_cmd c)])
          in print_help fuel E c tr = (map_option (\<lambda>_. ()) done, tr2))
       \<and> length HELP_ERR = 28
       \<and> ((\<forall>h b. b \<noteq> [] \<longrightarrow> (\<exists>k>0. write_result E h 2 b = Accepted k)) \<and> 28 \<le> fuel \<longrightarrow>
            (\<exists>chunks. print_help fuel E c tr
                        = (Some (), tr @ Exec (format_cmd c) # map (Wrote 2) chunks)
                      \<and> concat chunks = HELP_ERR)
            \<and> written_to 2 (snd (print_help fuel E c tr)) = written_to 2 tr @ HELP_ERR)"
proof (intro conjI impI)
  show "let (done, tr2) = write_loop fuel E 2 HELP_ERR 28 (tr @ [Exec (format_cmd c)])
        in print_help fuel E c tr = (map_option (\<lambda>_. ()) done, tr2)"
    using assms by (simp add: print_help_fits write_loop_def split_beta HELP_ERR_def)
  show len: "length HELP_ERR = 28"
    by (simp add: HELP_ERR_def)
  assume sink: "(\<forall>h b. b \<noteq> [] \<longrightarrow> (\<exists>k>0. write_result E h 2 b = Accepted k)) \<and> 28 \<le> fuel"
  then have "length HELP_ERR \<le> fuel"
    by (simp add: len)
  from write_all_progress [OF conjunct1 [OF sink] this, of "tr @ [Exec (format_cmd c)]"]
  obtain chunks where
    "write_all fuel E 2 HELP_ERR (tr @ [Exec (format_cmd c)])
       = (Some True, (tr @ [Exec (format_cmd c)]) @ map (Wrote 2) chunks)"
    and cat: "concat chunks = HELP_ERR"
    by blast
  with assms have run: "print_help fuel E c tr
      = (Some (), tr @ Exec (format_cmd c) # map (Wrote 2) chunks)"
    by (simp add: print_help_fits)
  with cat show "\<exists>chunks. print_help fuel E c tr
                        = (Some (), tr @ Exec (format_cmd c) # map (Wrote 2) chunks)
                      \<and> concat chunks = HELP_ERR"
    by blast
  show "written_to 2 (snd (print_help fuel E c tr)) = written_to 2 tr @ HELP_ERR"
    by (simp add: run written_to_append written_to_chunks cat)
qed

text \<open>The topic \<open>math\<close>, an executor that cannot launch, a sink taking ten bytes a call.\<close>

theorem print_help_launch_failure_diagnostic_witness:
  "int (length (format_cmd ''math'')) < CMD_LEN
   \<and> system_result \<lparr>system_result = \<lambda>h cmd. - 1, write_result = \<lambda>h fd b. Accepted 10\<rparr> []
        (format_cmd ''math'') = - 1
   \<and> (28::nat) \<le> 28
   \<and> (\<exists>chunks. print_help 28 \<lparr>system_result = \<lambda>h cmd. - 1, write_result = \<lambda>h fd b. Accepted 10\<rparr>
                   ''math'' []
                 = (Some (), [] @ Exec (format_cmd ''math'') # map (Wrote 2) chunks)
               \<and> concat chunks = HELP_ERR)
   \<and> written_to 2 (snd (print_help 28
          \<lparr>system_result = \<lambda>h cmd. - 1, write_result = \<lambda>h fd b. Accepted 10\<rparr> ''math'' []))
      = written_to 2 [] @ HELP_ERR"
proof -
  let ?E = "\<lparr>system_result = \<lambda>h cmd. - 1, write_result = \<lambda>h fd b. Accepted 10\<rparr>"
  have fits: "int (length (format_cmd ''math'')) < CMD_LEN"
    by (simp add: length_format_cmd CMD_LEN_def)
  have fails: "system_result ?E [] (format_cmd ''math'') = - 1"
    by simp
  have sink: "\<forall>h b. b \<noteq> [] \<longrightarrow> (\<exists>k>0. write_result ?E h 2 b = Accepted k)"
    by simp
  show ?thesis
    using fits fails sink print_help_launch_failure_diagnostic [OF fits fails, of 28]
    by simp
qed

subsection \<open>C4: the exit status is not looked at\<close>

text \<open>
  Claim C4. For every topic whose formatted command fits: when \<open>system\<close> returns anything
  but \<open>-1\<close> (the launched command may well have exited with a non-zero status),
  \<open>print_help\<close> returns after the executor call alone, with no \<open>write\<close>; and a \<open>write\<close>
  call is made if and only if \<open>system\<close> returned \<open>-1\<close>. (Fuel for one \<open>write\<close> call is
  needed for the call to show in the trace.)
\<close>

theorem print_help_exit_status_ignored:
  assumes "int (length (format_cmd c)) < CMD_LEN" and "0 < fuel"
  shows "(system_result E tr (format_cmd c) \<noteq> - 1 \<longrightarrow>
            print_help fuel E c tr = (Some (), tr @ [Exec (format_cmd c)]))
       \<and> (length (write_calls tr) < length (write_calls (snd (print_help fuel E c tr)))
            \<longleftrightarrow> system_result E tr (format_cmd c) = - 1)"
proof -
  have "HELP_ERR \<noteq> []"
    by (simp add: HELP_ERR_def)
  from write_all_first_call [OF this \<open>0 < fuel\<close>, of "tr @ [Exec (format_cmd c)]" E 2]
  have "length (write_calls tr)
        < length (write_calls (snd (write_all fuel E 2 HELP_ERR (tr @ [Exec (format_cmd c)]))))"
    by (simp add: write_calls_append)
  then show ?thesis
    using assms(1) by (simp add: print_help_fits write_calls_append)
qed

text \<open>The topic \<open>math\<close>; the command is launched and exits with code 1 (wait status 256).\<close>

theorem print_help_exit_status_ignored_witness:
  "int (length (format_cmd ''math'')) < CMD_LEN \<and> (0::nat) < 1
   \<and> system_result \<lparr>system_result = \<lambda>h cmd. 256, write_result = \<lambda>h fd b. Accepted (length b)\<rparr>
        [] (format_cmd ''math'') \<noteq> - 1
   \<and> print_help 1 \<lparr>system_result = \<lambda>h cmd. 256, write_result = \<lambda>h fd b. Accepted (length b)\<rparr>
        ''math'' []
      = (Some (), [Exec (format_cmd ''math'')])"
proof -
  let ?E = "\<lparr>system_result = \<lambda>h cmd. 256, write_result = \<lambda>h fd b. Accepted (length b)\<rparr>"
  have fits: "int (length (format_cmd ''math'')) < CMD_LEN"
    by (simp add: length_format_cmd CMD_LEN_def)
  have fuel: "(0::nat) < 1"
    by simp
  show ?thesis
    using fits print_help_exit_status_ignored [OF fits fuel, of ?E "[]"] by simp
qed

subsection \<open>C5: the boundary\<close>

text \<open>
  Claim C5 says that a formatted command of exactly \<open>CMD_LEN\<close> bytes is executed. It is
  not: with a topic of 996 bytes the formatted command has 1024 bytes, and the executor,
  ready to launch, is not called.
\<close>

theorem print_help_boundary_inclusive_counterexample:
  "int (length (format_cmd (replicate 996 (CHR ''a'')))) = CMD_LEN
   \<and> executed (snd (print_help 0
        \<lparr>system_result = \<lambda>h cmd. 0, write_result = \<lambda>h fd b. Accepted (length b)\<rparr>
        (replicate 996 (CHR ''a'')) [])) = []"
  by (simp add: print_help_def snprintf_def length_format_cmd CMD_LEN_def INT_MAX_def)

text \<open>
  Claim C5, amended. The boundary is exclusive, one byte of the buffer being kept for the
  terminating NUL: a formatted command of \<open>CMD_LEN - 1\<close> = 1023 bytes is executed, whole;
  one of exactly \<open>CMD_LEN\<close> = 1024 bytes is not, and \<open>print_help\<close> returns without any
  effect.
\<close>

theorem print_help_boundary_exclusive:
  "(int (length (format_cmd c)) = CMD_LEN - 1 \<longrightarrow>
      executed (snd (print_help fuel E c tr)) = executed tr @ [format_cmd c])
   \<and> (int (length (format_cmd c)) = CMD_LEN \<longrightarrow> print_help fuel E c tr = (Some (), tr))"
proof (intro conjI impI)
  assume "int (length (format_cmd c)) = CMD_LEN - 1"
  then have "int (length (format_cmd c)) < CMD_LEN"
    by simp
  then show "executed (snd (print_help fuel E c tr)) = executed tr @ [format_cmd c]"
    by (simp add: executed_print_help snprintf_fits)
next
  assume "int (length (format_cmd c)) = CMD_LEN"
  then show "print_help fuel E c tr = (Some (), tr)"
    by (intro print_help_overflow_skips) (simp_all add: CMD_LEN_def INT_MAX_def)
qed

text \<open>Topics of 995 and of 996 bytes, on either side of the boundary.\<close>

theorem print_help_boundary_exclusive_witness:
  "int (length (format_cmd (replicate 995 (CHR ''a'')))) = CMD_LEN - 1
   \<and> executed (snd (print_help 0 \<lparr>system_result = \<lambda>h cmd. 0, write_result = \<lambda>h fd b. Hard_error\<rparr>
                       (replicate 995 (CHR ''a'')) []))
      = [format_cmd (replicate 995 (CHR ''a''))]
   \<and> int (length (format_cmd (replicate 996 (CHR ''a'')))) = CMD_LEN
   \<and> print_help 0 \<lparr>system_result = \<lambda>h cmd. 0, write_result = \<lambda>h fd b. Hard_error\<rparr>
        (replicate 996 (CHR ''a'')) []
      = (Some (), [])"
proof -
  let ?E = "\<lparr>system_result = \<lambda>h cmd. 0, write_result = \<lambda>h fd b. Hard_error\<rparr>"
  have below: "int (length (format_cmd (replicate 995 (CHR ''a'')))) = CMD_LEN - 1"
    by (simp add: length_format_cmd CMD_LEN_def)
  have at: "int (length (format_cmd (replicate 996 (CHR ''a'')))) = CMD_LEN"
    by (simp add: length_format_cmd CMD_LEN_def)
  show ?thesis
    using below at
      print_help_boundary_exclusive [of "replicate 995 (CHR ''a'')" 0 ?E "[]"]
      print_help_boundary_exclusive [of "replicate 996 (CHR ''a'')" 0 ?E "[]"]
    by simp
qed

subsection \<open>C6: nothing is reported to the caller\<close>

text \<open>
  Claim C6. For every topic and every answer of the executor and of the sink, the only
  value \<open>print_help\<close> returns is the unit value of a \<open>void\<close> function: at any point it has
  either returned it, or it is on the launch-failure path and \<open>write_loop\<close> has not
  returned yet. Whenever \<open>write_loop\<close> comes back, with success or with a hard error, so
  does \<open>print_help\<close>, with nothing to tell the two apart: if the sink never answers "zero
  bytes accepted" (it takes bytes or fails for good), \<open>print_help\<close> has returned within 28
  \<open>write\<close> calls. Format overflow and launch failure never keep it from returning.
\<close>

theorem print_help_fire_and_forget:
  "(fst (print_help fuel E c tr) = Some ()
    \<or> fst (print_help fuel E c tr) = None
      \<and> system_result E tr (fst (snprintf (nat CMD_LEN) (format_cmd c))) = - 1
      \<and> fst (write_loop fuel E 2 HELP_ERR (strlen HELP_ERR)
               (tr @ [Exec (fst (snprintf (nat CMD_LEN) (format_cmd c)))])) = None)
   \<and> ((\<forall>h b. write_result E h 2 b \<noteq> Accepted 0) \<and> 28 \<le> fuel
        \<longrightarrow> fst (print_help fuel E c tr) = Some ())"
proof (intro conjI impI)
  show "fst (print_help fuel E c tr) = Some ()
    \<or> fst (print_help fuel E c tr) = None
      \<and> system_result E tr (fst (snprintf (nat CMD_LEN) (format_cmd c))) = - 1
      \<and> fst (write_loop fuel E 2 HELP_ERR (strlen HELP_ERR)
               (tr @ [Exec (fst (snprintf (nat CMD_LEN) (format_cmd c)))])) = None"
    by (auto simp: print_help_def system_def split_beta)
next
  assume sink: "(\<forall>h b. write_result E h 2 b \<noteq> Accepted 0) \<and> 28 \<le> fuel"
  then have "length HELP_ERR \<le> fuel"
    by (simp add: HELP_ERR_def)
  from write_all_returns [OF conjunct1 [OF sink] this]
  have "\<And>tr'. fst (write_loop fuel E 2 HELP_ERR (strlen HELP_ERR) tr') \<noteq> None"
    by (simp add: write_loop_def strlen_def)
  then show "fst (print_help fuel E c tr) = Some ()"
    by (auto simp: print_help_def system_def split_beta)
qed

text \<open>
  The topic \<open>math\<close>, an executor that cannot launch and a standard error that fails on the
  first \<open>write\<close>: \<open>print_help\<close> returns all the same.
\<close>

theorem print_help_fire_and_forget_witness:
  "(28::nat) \<le> 28
   \<and> print_help 28 \<lparr>system_result = \<lambda>h cmd. - 1, write_result = \<lambda>h fd b. Hard_error\<rparr>
        ''math'' []
      = (Some (), [Exec (format_cmd ''math''), Write_error 2])"
proof -
  let ?E = "\<lparr>system_result = \<lambda>h cmd. - 1, write_result = \<lambda>h fd b. Hard_error\<rparr>"
  have sink: "\<forall>h b. write_result ?E h 2 b \<noteq> Accepted 0"
    by simp
  have fuel: "(28::nat) \<le> 28"
    by simp
  from print_help_fire_and_forget [of 28 ?E "''math''" "[]"] sink fuel
  have returned: "fst (print_help 28 ?E ''math'' []) = Some ()"
    by blast
  have "snd (print_help 28 ?E ''math'' []) = [Exec (format_cmd ''math''), Write_error 2]"
    by (simp add: print_help_def snprintf_def length_format_cmd CMD_LEN_def INT_MAX_def
        system_def write_loop_def strlen_def HELP_ERR_def numeral_eq_Suc)
  with returned show ?thesis
    by (simp add: prod_eq_iff)
qed

subsection \<open>C8: at most one call of the executor\<close>

text \<open>
  Claim C8. For every topic and every behaviour of the executor and of the sink, one call
  of \<open>print_help\<close> adds at most one command to those handed to the executor, and leaves
  the earlier ones as they were.
\<close>

theorem print_help_executes_at_most_once:
  "length (executed (snd (print_help fuel E c tr))) \<le> length (executed tr) + 1
   \<and> take (length (executed tr)) (executed (snd (print_help fuel E c tr))) = executed tr"
  by (simp add: executed_print_help)

subsection \<open>C10: determinism\<close>

text \<open>
  Claim C10. Two runs of \<open>print_help\<close> on the same topic, from the same history, in two
  worlds whose executors give the same answer to the command \<open>print_help\<close> builds and
  whose sinks give the same answers on descriptor 2, produce the same result and the same
  sequence of effects. The two worlds may differ in every other respect (the answers to
  other commands, the behaviour of other descriptors).
\<close>

theorem print_help_deterministic:
  assumes "system_result E1 tr (fst (snprintf (nat CMD_LEN) (format_cmd c)))
           = system_result E2 tr (fst (snprintf (nat CMD_LEN) (format_cmd c)))"
      and "\<forall>h b. write_result E1 h 2 b = write_result E2 h 2 b"
  shows "print_help fuel E1 c tr = print_help fuel E2 c tr"
  using assms(1) write_all_same_answers [OF assms(2)]
  by (simp add: print_help_def system_def write_loop_def split_beta)

text \<open>
  Two worlds that differ: in the first only the help command fails to launch and only
  descriptor 2 can be written to.
\<close>

theorem print_help_deterministic_witness:
  "system_result \<lparr>system_result = \<lambda>h cmd. if cmd = format_cmd ''math'' then - 1 else 0,
                  write_result = \<lambda>h fd b. if fd = 2 then Accepted 10 else Hard_error\<rparr>
       [] (fst (snprintf (nat CMD_LEN) (format_cmd ''math'')))
   = system_result \<lparr>system_result = \<lambda>h cmd. - 1,
                    write_result = \<lambda>h fd b. Accepted 10\<rparr>
       [] (fst (snprintf (nat CMD_LEN) (format_cmd ''math'')))
   \<and> print_help 28 \<lparr>system_result = \<lambda>h cmd. if cmd = format_cmd ''math'' then - 1 else 0,
                    write_result = \<lambda>h fd b. if fd = 2 then Accepted 10 else Hard_error\<rparr>
        ''math'' []
     = print_help 28 \<lparr>system_result = \<lambda>h cmd. - 1, write_result = \<lambda>h fd b. Accepted 10\<rparr>
        ''math'' []"
proof -
  let ?E1 = "\<lparr>system_result = \<lambda>h cmd. if cmd = format_cmd ''math'' then - 1 else 0,
                  write_result = \<lambda>h fd b. if fd = 2 then Accepted 10 else Hard_error\<rparr>"
  let ?E2 = "\<lparr>system_result = \<lambda>h cmd. - 1, write_result = \<lambda>h fd b. Accepted 10\<rparr>"
  have sys: "system_result ?E1 [] (fst (snprintf (nat CMD_LEN) (format_cmd ''math'')))
           = system_result ?E2 [] (fst (snprintf (nat CMD_LEN) (format_cmd ''math'')))"
    by (simp add: snprintf_def CMD_LEN_def length_format_cmd)
  have wr: "\<forall>h b. write_result ?E1 h 2 b = write_result ?E2 h 2 b"
    by simp
  show ?thesis
    using sys print_help_deterministic [OF sys wr, of 28] by simp
qed

subsection \<open>C2, C7, C9: topics beyond what an int can count\<close>

text \<open>
  The source tests \<open>printed < CMD_LEN\<close> only. A negative \<open>printed\<close>, which is how
  \<open>snprintf\<close> reports an output longer than \<open>INT_MAX\<close>, passes that test, and \<open>system\<close>
  is called on what the buffer holds: the first 1023 bytes of the command. The topic
  below has \<open>INT_MAX - 27\<close> = 2147483620 bytes, the shortest for which this happens.
  Up to \<open>INT_MAX\<close> bytes of output the three claims hold: see \<open>print_help_overflow_skips\<close>,
  \<open>print_help_complete_upto_int_max\<close> and \<open>print_help_executes_iff\<close>.
\<close>

text \<open>
  Claim C2 (a formatted command longer than the buffer is never executed), at that topic:
  the formatted command is longer than \<open>CMD_LEN\<close>, and the executor is called once, on a
  command cut after 996 bytes of the topic.
\<close>

theorem print_help_overflow_beyond_int_max_executes:
  "CMD_LEN < int (length (format_cmd (replicate 2147483620 (CHR ''a''))))
   \<and> executed (snd (print_help 0
        \<lparr>system_result = \<lambda>h cmd. 0, write_result = \<lambda>h fd b. Accepted (length b)\<rparr>
        (replicate 2147483620 (CHR ''a'')) []))
      = [''fish -c '__fish_print_help '' @ replicate 996 (CHR ''a'')]"
  by (simp add: executed_print_help snprintf_def length_format_cmd CMD_LEN_def INT_MAX_def)
    (simp add: format_cmd_def)

text \<open>
  Claim C7 (a truncated command is never executed), at that topic: the one event is the
  execution of the first 1023 bytes of a formatted command of 2147483648 bytes.
\<close>

theorem print_help_truncated_command_executed:
  "print_help 0 \<lparr>system_result = \<lambda>h cmd. 0, write_result = \<lambda>h fd b. Accepted (length b)\<rparr>
        (replicate 2147483620 (CHR ''a'')) []
     = (Some (), [Exec (take 1023 (format_cmd (replicate 2147483620 (CHR ''a''))))])
   \<and> length (take 1023 (format_cmd (replicate 2147483620 (CHR ''a'')))) = 1023
   \<and> length (format_cmd (replicate 2147483620 (CHR ''a''))) = 2147483648"
  by (simp add: print_help_def system_def snprintf_def length_format_cmd CMD_LEN_def INT_MAX_def)

text \<open>
  Claim C9 (the executor is called if and only if the topic has at most 995 bytes), at
  that topic: it has more than 995 bytes, \<open>snprintf\<close> returns \<open>-1\<close>, and the executor is
  called.
\<close>

theorem print_help_long_topic_executed:
  "995 < length (replicate 2147483620 (CHR ''a''))
   \<and> snd (snprintf (nat CMD_LEN) (format_cmd (replicate 2147483620 (CHR ''a'')))) = - 1
   \<and> length (executed (snd (print_help 0
        \<lparr>system_result = \<lambda>h cmd. 0, write_result = \<lambda>h fd b. Accepted (length b)\<rparr>
        (replicate 2147483620 (CHR ''a'')) []))) = 1"
  by (simp add: executed_print_help snprintf_def length_format_cmd CMD_LEN_def INT_MAX_def)

end
